theory Spec2Isabelle
  imports Complex_Main
begin

section \<open>Input streams: \<^verbatim>\<open>std::istringstream\<close> as used by \<^verbatim>\<open>getMeasurement\<close>\<close>

text \<open>
  \<^verbatim>\<open>getMeasurement\<close> (main.cpp, lines 128-167) reads one line through an
  \<^verbatim>\<open>istringstream\<close> with formatted extraction (\<^verbatim>\<open>iss >> var\<close>). The stream is the
  unread rest of the line together with its fail bit. A formatted extraction
  \<^item> does nothing, and leaves the variable as it was, once the fail bit is set;
  \<^item> otherwise skips leading white space; if nothing is left it sets the fail bit and
    leaves the variable as it was;
  \<^item> otherwise stores what it read.

  The end-of-file bit needs no field of its own: it is set only when the rest is empty,
  and an extraction from an empty rest fails in either case.

  The locals of \<^verbatim>\<open>getMeasurement\<close> are declared without initialiser, so a variable that
  no extraction has written holds an indeterminate value: it is \<open>None\<close> here, and a
  written one is \<open>Some v\<close>.
\<close>

record istringstream =
  buf :: string
  failbit :: bool

text \<open>\<^verbatim>\<open>isspace\<close> in the "C" locale: space, \<^verbatim>\<open>\t \n \v \f \r\<close>.\<close>

definition isspace :: "char \<Rightarrow> bool" where
  "isspace c = (c = CHR '' '' \<or> c = CHR 0x09 \<or> c = CHR 0x0A \<or> c = CHR 0x0B
                \<or> c = CHR 0x0C \<or> c = CHR 0x0D)"

definition skipws :: "string \<Rightarrow> string" where
  "skipws s = dropWhile isspace s"

text \<open>\<^verbatim>\<open>iss >> str\<close> for a \<^verbatim>\<open>std::string\<close>: the characters up to the next white space.\<close>

definition extract_string :: "istringstream \<Rightarrow> string \<Rightarrow> istringstream \<times> string" where
  "extract_string iss var =
     (if failbit iss then (iss, var)
      else let s = skipws (buf iss) in
        if s = [] then (\<lparr>buf = [], failbit = True\<rparr>, var)
        else (\<lparr>buf = dropWhile (\<lambda>c. \<not> isspace c) s, failbit = False\<rparr>,
              takeWhile (\<lambda>c. \<not> isspace c) s))"

text \<open>
  \<^verbatim>\<open>iss >> x\<close> for an arithmetic \<^verbatim>\<open>x\<close>. The conversion itself (\<^verbatim>\<open>std::num_get\<close>) is
  library code and is a parameter \<open>get\<close>: applied to the input that starts at the first
  character after the white space, it gives the value it stores (also when the
  conversion fails: zero, or the type's largest or smallest value on overflow), the
  input it leaves unread, and whether the conversion succeeded.
\<close>

definition extract_num ::
  "(string \<Rightarrow> 'a \<times> string \<times> bool) \<Rightarrow> istringstream \<Rightarrow> 'a option \<Rightarrow> istringstream \<times> 'a option" where
  "extract_num get iss var =
     (if failbit iss then (iss, var)
      else let s = skipws (buf iss) in
        if s = [] then (\<lparr>buf = [], failbit = True\<rparr>, var)
        else (case get s of (v, rest, ok) \<Rightarrow> (\<lparr>buf = rest, failbit = \<not> ok\<rparr>, Some v)))"

section \<open>Measurement packages and \<^verbatim>\<open>getMeasurement\<close>\<close>

text \<open>
  \<^verbatim>\<open>MeasurementPackage\<close> is declared in a header that is not part of the sources; its
  fields are the ones main.cpp assigns. A default-constructed package has an empty
  \<^verbatim>\<open>raw_measurements_\<close> vector and an unassigned sensor type and time stamp (\<open>None\<close>).
  Vector entries are \<open>real option\<close>: \<open>None\<close> is an entry copied from a local that was
  never written.
\<close>

datatype SensorType = LASER | RADAR

record MeasurementPackage =
  sensor_type_' :: "SensorType option"
  raw_measurements_' :: "real option list"
  timestamp_' :: "int option"
  ground_truth_' :: "real option list"

type_synonym 'a num_get = "string \<Rightarrow> 'a \<times> string \<times> bool"

definition getMeasurement :: "real num_get \<Rightarrow> int num_get \<Rightarrow> string \<Rightarrow> MeasurementPackage" where
  "getMeasurement rd_float rd_ll sensor_measurement =
     (let iss = \<lparr>buf = sensor_measurement, failbit = False\<rparr>;
          (iss, sensor_type) = extract_string iss [];
          (iss, meas_package) =
            (if sensor_type = ''L'' then
               let (iss, px) = extract_num rd_float iss None;
                   (iss, py) = extract_num rd_float iss None;
                   (iss, timestamp) = extract_num rd_ll iss None
               in (iss, \<lparr>sensor_type_' = Some LASER, raw_measurements_' = [px, py],
                         timestamp_' = timestamp, ground_truth_' = replicate 6 None\<rparr>)
             else if sensor_type = ''R'' then
               let (iss, ro) = extract_num rd_float iss None;
                   (iss, theta) = extract_num rd_float iss None;
                   (iss, ro_dot) = extract_num rd_float iss None;
                   (iss, timestamp) = extract_num rd_ll iss None
               in (iss, \<lparr>sensor_type_' = Some RADAR, raw_measurements_' = [ro, theta, ro_dot],
                         timestamp_' = timestamp, ground_truth_' = replicate 6 None\<rparr>)
             else (iss, \<lparr>sensor_type_' = None, raw_measurements_' = [],
                         timestamp_' = None, ground_truth_' = replicate 6 None\<rparr>));
          (iss, x_gt) = extract_num rd_float iss None;
          (iss, y_gt) = extract_num rd_float iss None;
          (iss, vx_gt) = extract_num rd_float iss None;
          (iss, vy_gt) = extract_num rd_float iss None;
          (iss, yaw_gt) = extract_num rd_float iss None;
          (iss, yawrate_gt) = extract_num rd_float iss None
      in meas_package\<lparr>ground_truth_' := [x_gt, y_gt, vx_gt, vy_gt, yaw_gt, yawrate_gt]\<rparr>)"

text \<open>The first white-space separated token of a line (empty when the line has none).\<close>

definition first_token :: "string \<Rightarrow> string" where
  "first_token s = takeWhile (\<lambda>c. \<not> isspace c) (skipws s)"

text \<open>
  The stream after the first token has been read, and the three (or four) extractions
  that follow it, named so that statements can refer to "the next field".
\<close>

definition after_tag :: "string \<Rightarrow> istringstream" where
  "after_tag s = fst (extract_string \<lparr>buf = s, failbit = False\<rparr> [])"

text \<open>
  A sample conversion used to run the definitions on concrete lines: unsigned decimal
  integers only (the library's conversion accepts more).
\<close>

definition is_digit :: "char \<Rightarrow> bool" where
  "is_digit c = (c \<in> set ''0123456789'')"

definition digit_val :: "char \<Rightarrow> nat" where
  "digit_val c = of_char c - 48"

definition digits_get :: "'a::semiring_1 num_get" where
  "digits_get s =
     (let ds = takeWhile is_digit s in
      if ds = [] then (0, s, False)
      else (of_nat (foldl (\<lambda>n c. 10 * n + digit_val c) 0 ds), dropWhile is_digit s, True))"

section \<open>The command line: \<^verbatim>\<open>ParseArgs\<close> and the choice of the filter\<close>

text \<open>
  The globals of main.cpp (lines 18-29) with their initial values. \<^verbatim>\<open>std_a\<close> and
  \<^verbatim>\<open>std_yawdd\<close> are doubles, modelled as reals.
\<close>

record globals =
  verbose :: bool
  use_laser :: bool
  use_radar :: bool
  use_simulator :: bool
  inputDataFile :: string
  outputDataFile :: string
  filter_choice :: string
  std_a :: real
  std_yawdd :: real

definition globals_init :: globals where
  "globals_init =
     \<lparr>verbose = False, use_laser = True, use_radar = True, use_simulator = True,
      inputDataFile = ''../data/obj_pose-laser-radar-synthetic-input.txt'',
      outputDataFile = ''../data/obj_pose-fused-output.txt'',
      filter_choice = ''ukf'', std_a = 6 / 10, std_yawdd = 4 / 10\<rparr>"

text \<open>
  What ends the program early: an exception nothing catches (\<^verbatim>\<open>std::stoi\<close> throws
  \<^verbatim>\<open>invalid_argument\<close> and \<^verbatim>\<open>out_of_range\<close>), or \<^verbatim>\<open>exit\<close>.
\<close>

datatype error = invalid_argument | out_of_range | exit_status int

text \<open>
  \<^verbatim>\<open>std::stoi\<close> with base 10: leading white space, an optional sign, decimal digits;
  what follows the digits is ignored. The result is a 32-bit \<^verbatim>\<open>int\<close>.
\<close>

definition stoi :: "string \<Rightarrow> error + int" where
  "stoi str =
     (let s = skipws str;
          (neg, s) = (case s of
                        [] \<Rightarrow> (False, s)
                      | c # r \<Rightarrow> if c = CHR ''-'' then (True, r)
                                 else if c = CHR ''+'' then (False, r) else (False, s));
          ds = takeWhile is_digit s
      in if ds = [] then Inl invalid_argument
         else let n = int (foldl (\<lambda>n c. 10 * n + digit_val c) 0 ds);
                  v = (if neg then - n else n)
              in if v < - (2 ^ 31) \<or> 2 ^ 31 - 1 < v then Inl out_of_range else Inr v)"

text \<open>
  \<^verbatim>\<open>ParseArgs\<close> (lines 65-125) loops over the results of \<^verbatim>\<open>getopt_long\<close> until it
  returns -1. \<^verbatim>\<open>getopt_long\<close> is library code: the list \<open>opts\<close> holds what its
  successive calls return, each with the \<^verbatim>\<open>optarg\<close> it sets (\<^verbatim>\<open>'?'\<close> for an option it
  does not know or whose argument is missing). \<^verbatim>\<open>--filter\<close> is returned as \<^verbatim>\<open>'f'\<close>.
  \<^verbatim>\<open>atof\<close> is library code too and a parameter. \<^verbatim>\<open>PrintHelp\<close> ends in
  \<^verbatim>\<open>exit(1)\<close>. \<open>ParseArgs_switch\<close> is the \<^verbatim>\<open>switch\<close> in the body of the loop.
\<close>

definition ParseArgs_switch :: "(string \<Rightarrow> real) \<Rightarrow> globals \<Rightarrow> char \<times> string \<Rightarrow> error + globals" where
  "ParseArgs_switch atof g oa =
     (case oa of (opt, optarg) \<Rightarrow>
      if opt = CHR ''v'' then
        (case stoi optarg of Inl e \<Rightarrow> Inl e | Inr n \<Rightarrow> Inr (g\<lparr>verbose := (n > 0)\<rparr>))
      else if opt = CHR ''l'' then
        (case stoi optarg of Inl e \<Rightarrow> Inl e | Inr n \<Rightarrow> Inr (g\<lparr>use_laser := (n > 0)\<rparr>))
      else if opt = CHR ''r'' then
        (case stoi optarg of Inl e \<Rightarrow> Inl e | Inr n \<Rightarrow> Inr (g\<lparr>use_radar := (n > 0)\<rparr>))
      else if opt = CHR ''a'' then Inr (g\<lparr>std_a := atof optarg\<rparr>)
      else if opt = CHR ''y'' then Inr (g\<lparr>std_yawdd := atof optarg\<rparr>)
      else if opt = CHR ''s'' then
        (case stoi optarg of Inl e \<Rightarrow> Inl e | Inr n \<Rightarrow> Inr (g\<lparr>use_simulator := (n > 0)\<rparr>))
      else if opt = CHR ''i'' then Inr (g\<lparr>inputDataFile := optarg\<rparr>)
      else if opt = CHR ''o'' then Inr (g\<lparr>outputDataFile := optarg\<rparr>)
      else if opt = CHR ''f'' then Inr (g\<lparr>filter_choice := optarg\<rparr>)
      else Inl (exit_status 1))"

fun ParseArgs :: "(string \<Rightarrow> real) \<Rightarrow> globals \<Rightarrow> (char \<times> string) list \<Rightarrow> error + globals" where
  "ParseArgs atof g [] = Inr g"
| "ParseArgs atof g (oa # rest) =
     (case ParseArgs_switch atof g oa of
        Inl e \<Rightarrow> Inl e
      | Inr g' \<Rightarrow> ParseArgs atof g' rest)"

text \<open>
  The filter main creates (lines 182-188). The constructors of \<^verbatim>\<open>UKF\<close> and \<^verbatim>\<open>EKF\<close>
  are not part of the sources, so the value records which constructor is called and
  with which arguments.
\<close>

datatype new_filter =
    new_UKF bool bool bool real real
  | new_EKF bool bool bool real real

definition create_filter :: "globals \<Rightarrow> new_filter" where
  "create_filter g =
     (if filter_choice g = ''ukf''
      then new_UKF (verbose g) (use_laser g) (use_radar g) (std_a g) (std_yawdd g)
      else new_EKF (verbose g) (use_laser g) (use_radar g) (std_a g) (std_yawdd g))"

text \<open>The values \<^verbatim>\<open>--filter\<close> was given on the command line, in order.\<close>

definition filter_args :: "(char \<times> string) list \<Rightarrow> string list" where
  "filter_args opts = map snd (filter (\<lambda>p. fst p = CHR ''f'') opts)"

section \<open>The measurement loops of \<^verbatim>\<open>main\<close>\<close>

text \<open>
  The class \<^verbatim>\<open>Filter\<close> is declared in a header that is not part of the sources. The
  record has the members main.cpp reads: the state vector \<^verbatim>\<open>x_\<close> (an Eigen vector of
  doubles, a list of reals here), the two latest NIS values, the two NIS counters and
  the step counter. A trailing underscore of a member name is written \<open>_'\<close>.
\<close>

record Filter =
  x_' :: "real list"
  nis_laser_' :: real
  nis_radar_' :: real
  nis_laser_counter_' :: nat
  nis_radar_counter_' :: nat
  timestep_' :: nat

text \<open>
  Reading coefficient \<open>i\<close> of an Eigen vector, \<^verbatim>\<open>v(i)\<close>: outside the vector Eigen's
  assertion ends the program, which is \<open>None\<close>.
\<close>

definition coeff :: "'a list \<Rightarrow> nat \<Rightarrow> 'a option" where
  "coeff v i = (if i < length v then Some (v ! i) else None)"

text \<open>
  What main keeps between two measurements: the filter, the estimates and ground-truth
  vectors collected for the RMSE, and the latest RMSE.
\<close>

record 'f main_state =
  filter_obj :: 'f
  estimations :: "real list list"
  ground_truth :: "real option list list"
  RMSE :: "real list"

text \<open>One row of the output file (line 331-332), before formatting.\<close>

record csv_row =
  row_x :: "real list"
  row_nis_laser :: real
  row_nis_radar :: real
  row_ground_truth :: "real option list"
  row_rmse :: "real list"

text \<open>The message sent back to the simulator (lines 246-253), before formatting.\<close>

record estimate_marker =
  estimate_x :: real
  estimate_y :: real
  rmse_x :: real
  rmse_y :: real
  rmse_vx :: real
  rmse_vy :: real

text \<open>
  \<^verbatim>\<open>ProcessMeasurement\<close> and \<^verbatim>\<open>Tools::CalculateRMSE\<close> are not part of the sources and
  are parameters. \<^verbatim>\<open>ProcessMeasurement\<close> changes the filter in place; \<open>None\<close> is an
  exception leaving it, which main does not catch.

  The body of the loop over the lines of the input file (lines 312-333).
\<close>

definition csv_line ::
  "real num_get \<Rightarrow> int num_get \<Rightarrow> ('a Filter_scheme \<Rightarrow> MeasurementPackage \<Rightarrow> 'a Filter_scheme option)
     \<Rightarrow> (real list list \<Rightarrow> real option list list \<Rightarrow> real list)
     \<Rightarrow> 'a Filter_scheme main_state \<Rightarrow> string \<Rightarrow> ('a Filter_scheme main_state \<times> csv_row) option" where
  "csv_line rd_float rd_ll ProcessMeasurement CalculateRMSE st line =
     (let meas_package = getMeasurement rd_float rd_ll line in
      case ProcessMeasurement (filter_obj st) meas_package of
        None \<Rightarrow> None
      | Some flt \<Rightarrow>
         (case (coeff (x_' flt) 0, coeff (x_' flt) 1, coeff (x_' flt) 2, coeff (x_' flt) 3) of
            (Some p_x, Some p_y, Some v, Some yaw) \<Rightarrow>
              let v1 = cos yaw * v;
                  v2 = sin yaw * v;
                  estimate = [p_x, p_y, v1, v2];
                  estimations = estimations st @ [estimate];
                  ground_truth = ground_truth st @ [take 4 (ground_truth_' meas_package)];
                  RMSE = CalculateRMSE estimations ground_truth
              in Some (\<lparr>filter_obj = flt, estimations = estimations,
                         ground_truth = ground_truth, RMSE = RMSE\<rparr>,
                       \<lparr>row_x = x_' flt, row_nis_laser = nis_laser_' flt,
                         row_nis_radar = nis_radar_' flt,
                         row_ground_truth = ground_truth_' meas_package, row_rmse = RMSE\<rparr>)
          | _ \<Rightarrow> None))"

text \<open>
  The handler of a \<^verbatim>\<open>telemetry\<close> event of the simulator (lines 225-255), from the
  measurement string on. Its RMSE is a local of the handler, so the RMSE of the state
  stays as it is.
\<close>

definition on_telemetry ::
  "real num_get \<Rightarrow> int num_get \<Rightarrow> ('a Filter_scheme \<Rightarrow> MeasurementPackage \<Rightarrow> 'a Filter_scheme option)
     \<Rightarrow> (real list list \<Rightarrow> real option list list \<Rightarrow> real list)
     \<Rightarrow> 'a Filter_scheme main_state \<Rightarrow> string
     \<Rightarrow> ('a Filter_scheme main_state \<times> estimate_marker) option" where
  "on_telemetry rd_float rd_ll ProcessMeasurement CalculateRMSE st sensor_measurement =
     (let meas_package = getMeasurement rd_float rd_ll sensor_measurement in
      case ProcessMeasurement (filter_obj st) meas_package of
        None \<Rightarrow> None
      | Some flt \<Rightarrow>
         (case (coeff (x_' flt) 0, coeff (x_' flt) 1, coeff (x_' flt) 2, coeff (x_' flt) 3) of
            (Some p_x, Some p_y, Some v, Some yaw) \<Rightarrow>
              let v1 = cos yaw * v;
                  v2 = sin yaw * v;
                  estimate = [p_x, p_y, v1, v2];
                  estimations = estimations st @ [estimate];
                  ground_truth = ground_truth st @ [take 4 (ground_truth_' meas_package)];
                  RMSE = CalculateRMSE estimations ground_truth
              in (case (coeff RMSE 0, coeff RMSE 1, coeff RMSE 2, coeff RMSE 3) of
                    (Some r0, Some r1, Some r2, Some r3) \<Rightarrow>
                      Some (st\<lparr>filter_obj := flt, estimations := estimations,
                               ground_truth := ground_truth\<rparr>,
                            \<lparr>estimate_x = p_x, estimate_y = p_y, rmse_x = r0, rmse_y = r1,
                              rmse_vx = r2, rmse_vy = r3\<rparr>)
                  | _ \<Rightarrow> None)
          | _ \<Rightarrow> None))"

text \<open>The loop over the file: it ends with the first line that ends the program.\<close>

fun csv_loop ::
  "real num_get \<Rightarrow> int num_get \<Rightarrow> ('a Filter_scheme \<Rightarrow> MeasurementPackage \<Rightarrow> 'a Filter_scheme option)
     \<Rightarrow> (real list list \<Rightarrow> real option list list \<Rightarrow> real list)
     \<Rightarrow> 'a Filter_scheme main_state \<Rightarrow> string list \<Rightarrow> ('a Filter_scheme main_state \<times> csv_row list) option" where
  "csv_loop rd_float rd_ll ProcessMeasurement CalculateRMSE st [] = Some (st, [])"
| "csv_loop rd_float rd_ll ProcessMeasurement CalculateRMSE st (line # lines) =
     (case csv_line rd_float rd_ll ProcessMeasurement CalculateRMSE st line of
        None \<Rightarrow> None
      | Some (st', row) \<Rightarrow>
         (case csv_loop rd_float rd_ll ProcessMeasurement CalculateRMSE st' lines of
            None \<Rightarrow> None
          | Some (st'', rows) \<Rightarrow> Some (st'', row # rows)))"

section \<open>What a package shows of the line it was read from\<close>







section \<open>The estimation engine, modelled from the specification\<close>

text \<open>
  The filters themselves (the classes \<^verbatim>\<open>Filter\<close>, \<^verbatim>\<open>UKF\<close> and \<^verbatim>\<open>EKF\<close> that main.cpp
  includes and calls) are not part of the sources. What follows models the parts of the
  engine that the specification describes in its own words, with everything it leaves
  open as a parameter.
\<close>

subsection \<open>Process model\<close>

text \<open>
  Modelled from the spec: the state vector of section 3 (position-x, position-y, speed
  magnitude, heading angle, turn rate); the filter classes that hold it are missing.
\<close>

record ctrv_state =
  px :: real
  py :: real
  v :: real
  yaw :: real
  yawdd :: real

text \<open>Modelled from the spec: the state as the vector of its five scalars, in that order.\<close>

definition vec_of :: "ctrv_state \<Rightarrow> real list" where
  "vec_of s = [px s, py s, v s, yaw s, yawdd s]"

text \<open>
  Modelled from the spec: the division of the process model, which says when it would
  divide by zero (the guard of section 4.1 is there to prevent it).
\<close>

definition checked_div :: "real \<Rightarrow> real \<Rightarrow> real option" where
  "checked_div a b = (if b = 0 then None else Some (a / b))"

text \<open>
  Modelled from the spec: the CTRV process model of section 4.1; the prediction code of
  the filters is missing. The "small epsilon" of the guard is the parameter \<open>eps\<close>.
  With a turn rate below \<open>eps\<close> the motion is a straight line: the position advances by
  \<open>v \<cdot> dt\<close> along the heading and nothing else changes. Otherwise the position follows
  the closed form with the quotient \<open>v / yawdd\<close> and the heading advances by
  \<open>yawdd \<cdot> dt\<close>. \<open>None\<close> is a division by zero.
\<close>

definition ctrv :: "real \<Rightarrow> real \<Rightarrow> ctrv_state \<Rightarrow> ctrv_state option" where
  "ctrv eps dt s =
     (if \<bar>yawdd s\<bar> < eps then
        Some (s\<lparr>px := px s + v s * dt * cos (yaw s),
                py := py s + v s * dt * sin (yaw s)\<rparr>)
      else
        (case checked_div (v s) (yawdd s) of
           None \<Rightarrow> None
         | Some r \<Rightarrow>
             Some (s\<lparr>px := px s + r * (sin (yaw s + yawdd s * dt) - sin (yaw s)),
                     py := py s + r * (cos (yaw s) - cos (yaw s + yawdd s * dt)),
                     yaw := yaw s + yawdd s * dt\<rparr>)))"

subsection \<open>Measurements, the two variants and the facade\<close>

text \<open>
  Modelled from the spec: the measurement of section 3, a tagged union of a position
  measurement \<open>(x, y)\<close> and a range measurement \<open>(range, bearing, range_rate)\<close>, each with
  its time stamp; the engine that consumes it is missing. The position sensor is the
  laser of main.cpp, the range sensor its radar.
\<close>

datatype measurement =
    Position real real int
  | Range real real real int

text \<open>Modelled from the spec: the sensor type and the time stamp of a measurement.\<close>

fun sensor_of :: "measurement \<Rightarrow> SensorType" where
  "sensor_of (Position x y t) = LASER"
| "sensor_of (Range rho phi rho_dot t) = RADAR"

fun timestamp_of :: "measurement \<Rightarrow> int" where
  "timestamp_of (Position x y t) = t"
| "timestamp_of (Range rho phi rho_dot t) = t"

text \<open>
  Modelled from the spec: the measurement dimension of section 4.4, two degrees of
  freedom for the position sensor and three for the range sensor.
\<close>

fun dof :: "measurement \<Rightarrow> nat" where
  "dof (Position x y t) = 2"
| "dof (Range rho phi rho_dot t) = 3"

text \<open>
  Modelled from the spec: the state a first measurement seeds (section 4.5). The
  position is taken from a position measurement, or derived from the polar coordinates
  of a range measurement; speed, heading and turn rate are zero.
\<close>

fun seed_state :: "measurement \<Rightarrow> ctrv_state" where
  "seed_state (Position x y t) = \<lparr>px = x, py = y, v = 0, yaw = 0, yawdd = 0\<rparr>"
| "seed_state (Range rho phi rho_dot t) =
     \<lparr>px = rho * cos phi, py = rho * sin phi, v = 0, yaw = 0, yawdd = 0\<rparr>"

text \<open>
  Modelled from the spec: the engine of sections 3 and 4.5. It extends the members
  main.cpp reads by the state of the state machine (uninitialized or running), the
  covariance, the time stamp of the last measurement and the two enable flags.
\<close>

record Engine = Filter +
  initialized :: bool
  P_cov :: "real list list"
  last_timestamp :: int
  laser_enabled :: bool
  radar_enabled :: bool

text \<open>
  Modelled from the spec: what the specification leaves open about an engine. The two
  filter variants enter through their common interface (section 9): \<open>Predict\<close> advances
  mean and covariance by an elapsed time, \<open>Update\<close> gives the new mean and covariance and
  the NIS of the update, or \<open>None\<close> when the innovation covariance cannot be inverted
  (section 7). \<open>crit\<close> is the chi-square 95% critical value for a number of degrees of
  freedom, \<open>seed_P\<close> the covariance a first measurement seeds, \<open>elapsed\<close> the time
  between two time stamps, and \<open>predict_when_disabled\<close> settles the open question of
  section 9: whether a measurement of a disabled sensor still predicts.
\<close>

record engine_params =
  Predict :: "real \<Rightarrow> real list \<times> real list list \<Rightarrow> real list \<times> real list list"
  Update :: "measurement \<Rightarrow> real list \<times> real list list \<Rightarrow> (real list \<times> real list list \<times> real) option"
  crit :: "nat \<Rightarrow> real"
  seed_P :: "measurement \<Rightarrow> real list list"
  elapsed :: "int \<Rightarrow> int \<Rightarrow> real"
  predict_when_disabled :: bool

text \<open>
  Modelled from the spec: the error a failed update surfaces, with the sensor type and
  the time stamp (section 7).
\<close>

datatype engine_error = update_failed SensorType int

text \<open>
  Modelled from the spec: construction (section 3): a state to be seeded by the first
  measurement, an identity covariance, all counters zero.
\<close>

definition new_engine :: "bool \<Rightarrow> bool \<Rightarrow> Engine" where
  "new_engine use_l use_r =
     \<lparr>x_' = [0, 0, 0, 0, 0], nis_laser_' = 0, nis_radar_' = 0,
      nis_laser_counter_' = 0, nis_radar_counter_' = 0, timestep_' = 0,
      initialized = False,
      P_cov = map (\<lambda>i. map (\<lambda>j. if i = j then 1 else 0) [0..<5]) [0..<5],
      last_timestamp = 0, laser_enabled = use_l, radar_enabled = use_r\<rparr>"

text \<open>
  Modelled from the spec: the feature flag per sensor type of section 4.5, which says
  whether the engine uses a measurement.
\<close>

definition enabled :: "Engine \<Rightarrow> measurement \<Rightarrow> bool" where
  "enabled e m = (case sensor_of m of LASER \<Rightarrow> laser_enabled e | RADAR \<Rightarrow> radar_enabled e)"

text \<open>
  Modelled from the spec: the consistency tracker of section 4.4. Every update records
  its NIS, counts it for its sensor when it exceeds the critical value for that
  sensor's measurement dimension, and counts one more step.
\<close>

definition track_nis :: "engine_params \<Rightarrow> measurement \<Rightarrow> real \<Rightarrow> Engine \<Rightarrow> Engine" where
  "track_nis p m nis e =
     (case sensor_of m of
        LASER \<Rightarrow>
          e\<lparr>nis_laser_' := nis,
            nis_laser_counter_' :=
              (if crit p (dof m) < nis then nis_laser_counter_' e + 1 else nis_laser_counter_' e),
            timestep_' := timestep_' e + 1\<rparr>
      | RADAR \<Rightarrow>
          e\<lparr>nis_radar_' := nis,
            nis_radar_counter_' :=
              (if crit p (dof m) < nis then nis_radar_counter_' e + 1 else nis_radar_counter_' e),
            timestep_' := timestep_' e + 1\<rparr>)"

text \<open>
  Modelled from the spec: the facade of section 4.5. The first measurement of an
  enabled sensor seeds state and covariance and makes the engine running; every later
  one is a prediction over the elapsed time followed by an update and the NIS
  bookkeeping. A failed update leaves the engine as it was. A measurement of a disabled
  sensor is a no-op while the engine is uninitialized, and afterwards advances the time
  stamp, with or without a prediction.
\<close>

definition process_measurement ::
  "engine_params \<Rightarrow> Engine \<Rightarrow> measurement \<Rightarrow> engine_error + Engine" where
  "process_measurement p e m =
     (if \<not> enabled e m then
        (if \<not> initialized e then Inr e
         else if predict_when_disabled p then
           (let (x1, P1) = Predict p (elapsed p (last_timestamp e) (timestamp_of m)) (x_' e, P_cov e)
            in Inr (e\<lparr>x_' := x1, P_cov := P1, last_timestamp := timestamp_of m\<rparr>))
         else Inr (e\<lparr>last_timestamp := timestamp_of m\<rparr>))
      else if \<not> initialized e then
        Inr (e\<lparr>x_' := vec_of (seed_state m), initialized := True, P_cov := seed_P p m,
                last_timestamp := timestamp_of m\<rparr>)
      else
        (case Update p m (Predict p (elapsed p (last_timestamp e) (timestamp_of m)) (x_' e, P_cov e)) of
           None \<Rightarrow> Inl (update_failed (sensor_of m) (timestamp_of m))
         | Some (x2, P2, nis) \<Rightarrow>
             Inr (track_nis p m nis
                    (e\<lparr>x_' := x2, P_cov := P2, last_timestamp := timestamp_of m\<rparr>))))"

text \<open>
  Modelled from the spec: a run over a stream of measurements. A measurement whose
  update fails is skipped by the caller, the engine staying as it was (section 5).
\<close>

fun run :: "engine_params \<Rightarrow> Engine \<Rightarrow> measurement list \<Rightarrow> Engine" where
  "run p e [] = e"
| "run p e (m # ms) =
     (case process_measurement p e m of
        Inl err \<Rightarrow> run p e ms
      | Inr e' \<Rightarrow> run p e' ms)"


text \<open>
  A sample instance of the parameters, used to run the engine on concrete streams: a
  variant whose prediction and update keep the belief and whose update reports the NIS
  it is given, the tabulated critical values 5.991 and 7.815, and time stamps in
  microseconds.
\<close>

definition sample_params :: "real \<Rightarrow> engine_params" where
  "sample_params nis =
     \<lparr>Predict = (\<lambda>dt b. b), Update = (\<lambda>m b. Some (fst b, snd b, nis)),
      crit = (\<lambda>n. if n = 2 then 5991 / 1000 else 7815 / 1000),
      seed_P = (\<lambda>m. map (\<lambda>i. map (\<lambda>j. if i = j then 1 else 0) [0..<5]) [0..<5]),
      elapsed = (\<lambda>t0 t1. real_of_int (t1 - t0) / 1000000),
      predict_when_disabled = False\<rparr>"

section \<open>Properties of \<^verbatim>\<open>getMeasurement\<close>\<close>

lemmas stream_defs =
  extract_string_def extract_num_def skipws_def isspace_def first_token_def after_tag_def

lemmas digits_defs = digits_get_def is_digit_def digit_val_def

lemma extract_string_tag:
  "extract_string \<lparr>buf = s, failbit = False\<rparr> [] = (after_tag s, first_token s)"
  by (simp add: extract_string_def after_tag_def first_token_def Let_def)

text \<open>A successful extraction stores the converted value and leaves the rest unread.\<close>

lemma extract_num_ok:
  assumes "\<not> failbit iss" and "skipws (buf iss) \<noteq> []"
    and "get (skipws (buf iss)) = (val, rest, True)"
  shows "extract_num get iss var = (\<lparr>buf = rest, failbit = False\<rparr>, Some val)"
  using assms by (simp add: extract_num_def Let_def)

text \<open>Once the fail bit is set, nothing is read any more.\<close>

lemma extract_num_failed: "failbit iss \<Longrightarrow> extract_num get iss var = (iss, var)"
  by (simp add: extract_num_def)

text \<open>
  Claim C6. For every line whose first token is \<^verbatim>\<open>L\<close>, \<^verbatim>\<open>getMeasurement\<close> returns a
  package tagged \<open>LASER\<close> whose raw measurements are the two values \<open>(px, py)\<close> that the
  next two extractions give, and whose time stamp is what the extraction after them
  gives. For every line whose first token is \<^verbatim>\<open>R\<close>, the package is tagged \<open>RADAR\<close>, its
  raw measurements are the three values \<open>(ro, theta, ro_dot)\<close> of the next three
  extractions, and its time stamp is that of the fourth. A package is tagged \<open>LASER\<close>
  for these lines only, and \<open>RADAR\<close> for those only. The conversions are the parameters
  \<open>rd_float\<close> and \<open>rd_ll\<close>.
\<close>

theorem getMeasurement_tagged_variants:
  "(first_token line = ''L'' \<longrightarrow>
      (let (s1, p_x) = extract_num rd_float (after_tag line) None;
           (s2, p_y) = extract_num rd_float s1 None;
           (s3, stamp) = extract_num rd_ll s2 None;
           m = getMeasurement rd_float rd_ll line
       in sensor_type_' m = Some LASER \<and> raw_measurements_' m = [p_x, p_y]
          \<and> timestamp_' m = stamp))
   \<and> (first_token line = ''R'' \<longrightarrow>
      (let (s1, ro) = extract_num rd_float (after_tag line) None;
           (s2, theta) = extract_num rd_float s1 None;
           (s3, ro_dot) = extract_num rd_float s2 None;
           (s4, stamp) = extract_num rd_ll s3 None;
           m = getMeasurement rd_float rd_ll line
       in sensor_type_' m = Some RADAR \<and> raw_measurements_' m = [ro, theta, ro_dot]
          \<and> timestamp_' m = stamp))
   \<and> (sensor_type_' (getMeasurement rd_float rd_ll line) = Some LASER
        \<longleftrightarrow> first_token line = ''L'')
   \<and> (sensor_type_' (getMeasurement rd_float rd_ll line) = Some RADAR
        \<longleftrightarrow> first_token line = ''R'')"
  by (simp add: getMeasurement_def extract_string_tag Let_def split: prod.splits)

text \<open>
  The theorem at a laser line and at a radar line, with decimal integers as fields.
\<close>

theorem getMeasurement_tagged_variants_witness:
  "first_token ''L 1 2 1477010443000000 3 4 5 6 7 8'' = ''L''
   \<and> sensor_type_' (getMeasurement digits_get digits_get ''L 1 2 1477010443000000 3 4 5 6 7 8'')
       = Some LASER
   \<and> raw_measurements_' (getMeasurement digits_get digits_get ''L 1 2 1477010443000000 3 4 5 6 7 8'')
       = [Some 1, Some 2]
   \<and> timestamp_' (getMeasurement digits_get digits_get ''L 1 2 1477010443000000 3 4 5 6 7 8'')
       = Some 1477010443000000
   \<and> first_token ''R 9 0 4 1477010443050000 3 4 5 6 7 8'' = ''R''
   \<and> sensor_type_' (getMeasurement digits_get digits_get ''R 9 0 4 1477010443050000 3 4 5 6 7 8'')
       = Some RADAR
   \<and> raw_measurements_' (getMeasurement digits_get digits_get ''R 9 0 4 1477010443050000 3 4 5 6 7 8'')
       = [Some 9, Some 0, Some 4]
   \<and> timestamp_' (getMeasurement digits_get digits_get ''R 9 0 4 1477010443050000 3 4 5 6 7 8'')
       = Some 1477010443050000"
proof -
  have l: "first_token ''L 1 2 1477010443000000 3 4 5 6 7 8'' = ''L''"
    by (simp add: stream_defs)
  have r: "first_token ''R 9 0 4 1477010443050000 3 4 5 6 7 8'' = ''R''"
    by (simp add: stream_defs)
  have "sensor_type_' (getMeasurement digits_get digits_get ''L 1 2 1477010443000000 3 4 5 6 7 8'')
          = Some LASER
      \<and> raw_measurements_' (getMeasurement digits_get digits_get ''L 1 2 1477010443000000 3 4 5 6 7 8'')
          = [Some 1, Some 2]
      \<and> timestamp_' (getMeasurement digits_get digits_get ''L 1 2 1477010443000000 3 4 5 6 7 8'')
          = Some 1477010443000000"
    using getMeasurement_tagged_variants
      [of "''L 1 2 1477010443000000 3 4 5 6 7 8''" digits_get digits_get] l
    by (simp add: stream_defs digits_defs Let_def)
  moreover
  have "sensor_type_' (getMeasurement digits_get digits_get ''R 9 0 4 1477010443050000 3 4 5 6 7 8'')
          = Some RADAR
      \<and> raw_measurements_' (getMeasurement digits_get digits_get ''R 9 0 4 1477010443050000 3 4 5 6 7 8'')
          = [Some 9, Some 0, Some 4]
      \<and> timestamp_' (getMeasurement digits_get digits_get ''R 9 0 4 1477010443050000 3 4 5 6 7 8'')
          = Some 1477010443050000"
    using getMeasurement_tagged_variants
      [of "''R 9 0 4 1477010443050000 3 4 5 6 7 8''" digits_get digits_get] r
    by (simp add: stream_defs digits_defs Let_def)
  ultimately show ?thesis using l r by simp
qed

section \<open>Properties of the command line\<close>

lemmas arg_defs =
  globals_init_def ParseArgs_switch_def stoi_def skipws_def isspace_def is_digit_def digit_val_def
  filter_args_def create_filter_def

lemma ParseArgs_switch_filter_choice:
  "case ParseArgs_switch atof g (c, a) of
     Inl e \<Rightarrow> True
   | Inr g' \<Rightarrow> filter_choice g' = (if c = CHR ''f'' then a else filter_choice g)"
  by (simp add: ParseArgs_switch_def split: sum.splits)

lemma ParseArgs_switch_f: "ParseArgs_switch atof g (CHR ''f'', s) = Inr (g\<lparr>filter_choice := s\<rparr>)"
  by (simp add: ParseArgs_switch_def)

lemma ParseArgs_append:
  "ParseArgs atof g (opts @ opts2) =
     (case ParseArgs atof g opts of Inl e \<Rightarrow> Inl e | Inr g' \<Rightarrow> ParseArgs atof g' opts2)"
  by (induction opts arbitrary: g) (simp_all split: sum.splits)

lemma ParseArgs_filter_choice:
  "ParseArgs atof g opts = Inr g' \<Longrightarrow> filter_choice g' = last (filter_choice g # filter_args opts)"
proof (induction opts arbitrary: g)
  case Nil
  then show ?case by (simp add: filter_args_def)
next
  case (Cons oa opts)
  obtain c a where oa: "oa = (c, a)" by (cases oa)
  from Cons.prems obtain g1 where
    g1: "ParseArgs_switch atof g (c, a) = Inr g1" and rest: "ParseArgs atof g1 opts = Inr g'"
    by (simp add: oa split: sum.splits)
  from ParseArgs_switch_filter_choice [where atof = atof and g = g and c = c and a = a] g1
  have "filter_choice g1 = (if c = CHR ''f'' then a else filter_choice g)" by simp
  with Cons.IH [OF rest] show ?case
    by (simp add: oa filter_args_def)
qed

text \<open>
  Claim C9. When the command line parses, the filter choice is the value of the last
  \<^verbatim>\<open>--filter\<close> option (the initial \<^verbatim>\<open>"ukf"\<close> when there is none); a \<^verbatim>\<open>--filter\<close> option
  is accepted whatever its value, and \<^verbatim>\<open>ParseArgs\<close> stores it as it is; main creates the
  EKF for every choice other than the exact string \<^verbatim>\<open>"ukf"\<close>, and the UKF for that string
  only.
\<close>

theorem filter_choice_selects_variant:
  assumes "ParseArgs atof g opts = Inr g'"
  shows "filter_choice g' = last (filter_choice g # filter_args opts)
     \<and> ParseArgs atof g (opts @ [(CHR ''f'', s)]) = Inr (g'\<lparr>filter_choice := s\<rparr>)
     \<and> (filter_choice g' \<noteq> ''ukf'' \<longrightarrow>
          create_filter g'
            = new_EKF (verbose g') (use_laser g') (use_radar g') (std_a g') (std_yawdd g'))
     \<and> (filter_choice g' = ''ukf'' \<longrightarrow>
          create_filter g'
            = new_UKF (verbose g') (use_laser g') (use_radar g') (std_a g') (std_yawdd g'))"
  using assms ParseArgs_filter_choice [OF assms]
  by (simp add: ParseArgs_append ParseArgs_switch_f create_filter_def)

text \<open>
  The theorem at \<^verbatim>\<open>--verbose 1 --filter UKF\<close>: the misspelt name is accepted and gives
  the EKF; \<^verbatim>\<open>--filter ukf\<close> after it is accepted as well.
\<close>

theorem filter_choice_selects_variant_witness:
  "ParseArgs (\<lambda>s. 0) globals_init [(CHR ''v'', ''1''), (CHR ''f'', ''UKF'')]
     = Inr (globals_init\<lparr>verbose := True, filter_choice := ''UKF''\<rparr>)
   \<and> create_filter (globals_init\<lparr>verbose := True, filter_choice := ''UKF''\<rparr>)
     = new_EKF True True True (6 / 10) (4 / 10)
   \<and> ParseArgs (\<lambda>s. 0) globals_init
        [(CHR ''v'', ''1''), (CHR ''f'', ''UKF''), (CHR ''f'', ''ukf'')]
     = Inr (globals_init\<lparr>verbose := True, filter_choice := ''ukf''\<rparr>)"
proof -
  have p: "ParseArgs (\<lambda>s. 0) globals_init [(CHR ''v'', ''1''), (CHR ''f'', ''UKF'')]
     = Inr (globals_init\<lparr>verbose := True, filter_choice := ''UKF''\<rparr>)"
    by (simp add: arg_defs Let_def)
  have c: "create_filter (globals_init\<lparr>verbose := True, filter_choice := ''UKF''\<rparr>)
     = new_EKF True True True (6 / 10) (4 / 10)"
    using filter_choice_selects_variant [OF p] by (simp add: globals_init_def)
  have q: "ParseArgs (\<lambda>s. 0) globals_init
        ([(CHR ''v'', ''1''), (CHR ''f'', ''UKF'')] @ [(CHR ''f'', ''ukf'')])
     = Inr (globals_init\<lparr>verbose := True, filter_choice := ''ukf''\<rparr>)"
    using filter_choice_selects_variant [OF p, of "''ukf''"] by (simp only: globals.update_convs globals.simps, simp)
  from p c q show ?thesis by simp
qed

section \<open>Properties of the measurement loops\<close>

lemma coeff4:
  assumes "4 \<le> length vec"
  shows "coeff vec 0 = Some (vec ! 0)" "coeff vec 1 = Some (vec ! 1)"
    "coeff vec 2 = Some (vec ! 2)" "coeff vec 3 = Some (vec ! 3)"
  using assms by (auto simp: coeff_def)

lemma take4_nth: "4 \<le> length vec \<Longrightarrow> take 4 vec = [vec ! 0, vec ! 1, vec ! 2, vec ! 3]"
proof (rule nth_equalityI)
  assume "4 \<le> length vec"
  then show "length (take 4 vec) = length [vec ! 0, vec ! 1, vec ! 2, vec ! 3]" by simp
next
  fix i assume "4 \<le> length vec" and "i < length (take 4 vec)"
  then have "i < 4" by simp
  then have "i = 0 \<or> i = 1 \<or> i = 2 \<or> i = 3" by arith
  then show "take 4 vec ! i = [vec ! 0, vec ! 1, vec ! 2, vec ! 3] ! i" by auto
qed

text \<open>
  Claim C10. Let \<open>flt\<close> be the filter after \<^verbatim>\<open>ProcessMeasurement\<close>, with a state vector
  \<open>x\<close> of at least four entries. The loop over the file and the simulator's handler
  both record the estimate \<open>(x 0, x 1, x 2 \<cdot> cos (x 3), x 2 \<cdot> sin (x 3))\<close>, that is
  position and the speed and heading turned into a Cartesian velocity, and both record
  the first four entries of the measurement's ground truth next to it; the RMSE is
  computed from these two lists. (The handler indexes the RMSE vector, whence the
  second size condition.)
\<close>

theorem estimate_is_cartesian_velocity:
  assumes pm: "PM (filter_obj st) (getMeasurement rd_float rd_ll line) = Some flt"
    and x: "4 \<le> length (x_' flt)"
    and r: "4 \<le> length (CalculateRMSE
               (estimations st @ [[x_' flt ! 0, x_' flt ! 1,
                                   x_' flt ! 2 * cos (x_' flt ! 3), x_' flt ! 2 * sin (x_' flt ! 3)]])
               (ground_truth st @ [take 4 (ground_truth_' (getMeasurement rd_float rd_ll line))]))"
  shows "\<exists>s1 row s2 msg.
           csv_line rd_float rd_ll PM CalculateRMSE st line = Some (s1, row)
         \<and> on_telemetry rd_float rd_ll PM CalculateRMSE st line = Some (s2, msg)
         \<and> estimations s1 = estimations st @ [[x_' flt ! 0, x_' flt ! 1,
                                   x_' flt ! 2 * cos (x_' flt ! 3), x_' flt ! 2 * sin (x_' flt ! 3)]]
         \<and> ground_truth s1
             = ground_truth st @ [take 4 (ground_truth_' (getMeasurement rd_float rd_ll line))]
         \<and> estimations s2 = estimations s1 \<and> ground_truth s2 = ground_truth s1
         \<and> RMSE s1 = CalculateRMSE (estimations s1) (ground_truth s1)
         \<and> [rmse_x msg, rmse_y msg, rmse_vx msg, rmse_vy msg] = take 4 (RMSE s1)"
proof -
  have c: "coeff (x_' flt) 0 = Some (x_' flt ! 0)" "coeff (x_' flt) 1 = Some (x_' flt ! 1)"
    "coeff (x_' flt) 2 = Some (x_' flt ! 2)" "coeff (x_' flt) 3 = Some (x_' flt ! 3)"
    by (rule coeff4 [OF x])+
  let ?E = "estimations st @ [[x_' flt ! 0, x_' flt ! 1,
                                   x_' flt ! 2 * cos (x_' flt ! 3), x_' flt ! 2 * sin (x_' flt ! 3)]]"
  let ?G = "ground_truth st @ [take 4 (ground_truth_' (getMeasurement rd_float rd_ll line))]"
  let ?R = "CalculateRMSE ?E ?G"
  have cr: "coeff ?R 0 = Some (?R ! 0)" "coeff ?R 1 = Some (?R ! 1)"
    "coeff ?R 2 = Some (?R ! 2)" "coeff ?R 3 = Some (?R ! 3)"
    by (rule coeff4 [OF r])+
  have csv: "csv_line rd_float rd_ll PM CalculateRMSE st line =
      Some (\<lparr>filter_obj = flt, estimations = ?E, ground_truth = ?G, RMSE = ?R\<rparr>,
            \<lparr>row_x = x_' flt, row_nis_laser = nis_laser_' flt, row_nis_radar = nis_radar_' flt,
              row_ground_truth = ground_truth_' (getMeasurement rd_float rd_ll line),
              row_rmse = ?R\<rparr>)"
    by (simp add: csv_line_def Let_def pm c mult.commute del: One_nat_def)
  have sim: "on_telemetry rd_float rd_ll PM CalculateRMSE st line =
      Some (st\<lparr>filter_obj := flt, estimations := ?E, ground_truth := ?G\<rparr>,
            \<lparr>estimate_x = x_' flt ! 0, estimate_y = x_' flt ! 1, rmse_x = ?R ! 0,
              rmse_y = ?R ! 1, rmse_vx = ?R ! 2, rmse_vy = ?R ! 3\<rparr>)"
    by (simp add: on_telemetry_def Let_def pm c cr mult.commute del: One_nat_def)
  show ?thesis
    unfolding csv sim using take4_nth [OF r] by (simp del: One_nat_def)
qed

text \<open>
  The theorem at a filter whose state after the measurement is \<open>(1, 2, 3, \<pi>/2, 0)\<close>:
  speed 3 at heading \<open>\<pi>/2\<close> is the velocity \<open>(0, 3)\<close>.
\<close>

theorem estimate_is_cartesian_velocity_witness:
  "map_option (\<lambda>r. (estimations (fst r), ground_truth (fst r)))
     (csv_line digits_get digits_get
        (\<lambda>f m. Some (f\<lparr>x_' := [1, 2, 3, pi / 2, 0]\<rparr>)) (\<lambda>e g. [0, 0, 0, 0])
        \<lparr>filter_obj = \<lparr>x_' = [], nis_laser_' = 0, nis_radar_' = 0, nis_laser_counter_' = 0,
                       nis_radar_counter_' = 0, timestep_' = 0\<rparr>,
          estimations = [], ground_truth = [], RMSE = []\<rparr>
        ''L 1 2 1477 1 2 3 0 0 0'')
     = Some ([[1, 2, 0, 3]], [[Some 1, Some 2, Some 3, Some 0]])
   \<and> map_option (\<lambda>r. (estimations (fst r), ground_truth (fst r)))
     (on_telemetry digits_get digits_get
        (\<lambda>f m. Some (f\<lparr>x_' := [1, 2, 3, pi / 2, 0]\<rparr>)) (\<lambda>e g. [0, 0, 0, 0])
        \<lparr>filter_obj = \<lparr>x_' = [], nis_laser_' = 0, nis_radar_' = 0, nis_laser_counter_' = 0,
                       nis_radar_counter_' = 0, timestep_' = 0\<rparr>,
          estimations = [], ground_truth = [], RMSE = []\<rparr>
        ''L 1 2 1477 1 2 3 0 0 0'')
     = Some ([[1, 2, 0, 3]], [[Some 1, Some 2, Some 3, Some 0]])"
proof -
  let ?PM = "\<lambda>(f::Filter) (m::MeasurementPackage). Some (f\<lparr>x_' := [1, 2, 3, pi / 2, 0]\<rparr>)"
  let ?RM = "\<lambda>(e::real list list) (g::real option list list). [0::real, 0, 0, 0]"
  let ?f0 = "\<lparr>x_' = [], nis_laser_' = 0, nis_radar_' = 0, nis_laser_counter_' = 0,
                       nis_radar_counter_' = 0, timestep_' = 0\<rparr>"
  let ?st = "\<lparr>filter_obj = ?f0, estimations = [], ground_truth = [], RMSE = []\<rparr>"
  let ?line = "''L 1 2 1477 1 2 3 0 0 0''"
  have gt: "ground_truth_' (getMeasurement digits_get digits_get ?line)
              = [Some 1, Some 2, Some 3, Some 0, Some 0, Some 0]"
    by (simp add: getMeasurement_def stream_defs digits_defs Let_def)
  have h1: "?PM (filter_obj ?st) (getMeasurement digits_get digits_get ?line)
              = Some (?f0\<lparr>x_' := [1, 2, 3, pi / 2, 0]\<rparr>)"
    by simp
  have h2: "4 \<le> length (x_' (?f0\<lparr>x_' := [1, 2, 3, pi / 2, 0]\<rparr>))" by simp
  have h3: "4 \<le> length (?RM
               (estimations ?st @ [[x_' (?f0\<lparr>x_' := [1, 2, 3, pi / 2, 0]\<rparr>) ! 0, x_' (?f0\<lparr>x_' := [1, 2, 3, pi / 2, 0]\<rparr>) ! 1,
                                   x_' (?f0\<lparr>x_' := [1, 2, 3, pi / 2, 0]\<rparr>) ! 2 * cos (x_' (?f0\<lparr>x_' := [1, 2, 3, pi / 2, 0]\<rparr>) ! 3), x_' (?f0\<lparr>x_' := [1, 2, 3, pi / 2, 0]\<rparr>) ! 2 * sin (x_' (?f0\<lparr>x_' := [1, 2, 3, pi / 2, 0]\<rparr>) ! 3)]])
               (ground_truth ?st @ [take 4 (ground_truth_' (getMeasurement digits_get digits_get ?line))]))"
    by simp
  from estimate_is_cartesian_velocity [of ?PM ?st digits_get digits_get ?line, OF h1 h2 h3]
  obtain s1 row s2 msg where
    "csv_line digits_get digits_get ?PM ?RM ?st ?line = Some (s1, row)"
    "on_telemetry digits_get digits_get ?PM ?RM ?st ?line = Some (s2, msg)"
    "estimations s1 = [[1, 2, 0, 3]]"
    "ground_truth s1 = [take 4 (ground_truth_' (getMeasurement digits_get digits_get ?line))]"
    "estimations s2 = estimations s1" "ground_truth s2 = ground_truth s1"
    by (auto simp del: One_nat_def)
  then show ?thesis by (simp add: gt)
qed



















section \<open>Properties of the engine modelled from the specification\<close>

lemmas engine_defs =
  process_measurement_def enabled_def vec_of_def new_engine_def track_nis_def sample_params_def

subsection \<open>Process model\<close>

lemma ctrv_straight:
  "\<bar>yawdd s\<bar> < eps \<Longrightarrow>
     ctrv eps dt s = Some (s\<lparr>px := px s + v s * dt * cos (yaw s),
                             py := py s + v s * dt * sin (yaw s)\<rparr>)"
  by (simp add: ctrv_def)

lemma ctrv_turn:
  assumes "0 < eps" and "\<not> \<bar>yawdd s\<bar> < eps"
  shows "ctrv eps dt s =
     Some (s\<lparr>px := px s + v s / yawdd s * (sin (yaw s + yawdd s * dt) - sin (yaw s)),
             py := py s + v s / yawdd s * (cos (yaw s) - cos (yaw s + yawdd s * dt)),
             yaw := yaw s + yawdd s * dt\<rparr>)"
proof -
  from assms have "yawdd s \<noteq> 0" by auto
  with assms(2) show ?thesis by (simp add: ctrv_def checked_div_def)
qed

text \<open>
  Claim C3. With a positive epsilon, for every state and every \<open>dt\<close> the process model
  returns a state and never divides by zero. If the turn rate is below epsilon, the
  position advances by \<open>v \<cdot> dt\<close> along the heading and no quotient by the turn rate is
  formed. Otherwise the position advances by the closed form
  \<open>v / yawdd \<cdot> (sin (yaw + yawdd \<cdot> dt) - sin yaw)\<close> and the cosine term
  \<open>v / yawdd \<cdot> (cos yaw - cos (yaw + yawdd \<cdot> dt))\<close>, and the heading by \<open>yawdd \<cdot> dt\<close>.
  Speed and turn rate are unchanged in both branches.
\<close>

theorem ctrv_process_model:
  assumes "0 < eps"
  shows "(\<bar>yawdd s\<bar> < eps \<longrightarrow>
            ctrv eps dt s = Some (s\<lparr>px := px s + v s * dt * cos (yaw s),
                                    py := py s + v s * dt * sin (yaw s)\<rparr>))
     \<and> (\<not> \<bar>yawdd s\<bar> < eps \<longrightarrow>
            ctrv eps dt s =
              Some (s\<lparr>px := px s + v s / yawdd s * (sin (yaw s + yawdd s * dt) - sin (yaw s)),
                      py := py s + v s / yawdd s * (cos (yaw s) - cos (yaw s + yawdd s * dt)),
                      yaw := yaw s + yawdd s * dt\<rparr>))
     \<and> (\<exists>s'. ctrv eps dt s = Some s' \<and> v s' = v s \<and> yawdd s' = yawdd s)"
proof (cases "\<bar>yawdd s\<bar> < eps")
  case True
  then show ?thesis using ctrv_straight [of s eps dt] by simp
next
  case False
  then show ?thesis using ctrv_turn [OF assms False, of dt] by simp
qed

text \<open>
  The theorem with epsilon 0.001: two seconds of straight motion at speed 3, and a
  quarter turn at speed 3 and turn rate 1.
\<close>

theorem ctrv_process_model_witness:
  "ctrv (1 / 1000) 2 \<lparr>px = 0, py = 0, v = 3, yaw = 0, yawdd = 0\<rparr>
     = Some \<lparr>px = 6, py = 0, v = 3, yaw = 0, yawdd = 0\<rparr>
   \<and> ctrv (1 / 1000) (pi / 2) \<lparr>px = 0, py = 0, v = 3, yaw = 0, yawdd = 1\<rparr>
     = Some \<lparr>px = 3, py = 3, v = 3, yaw = pi / 2, yawdd = 1\<rparr>"
proof -
  have e: "(0::real) < 1 / 1000" by simp
  from ctrv_process_model [OF e, of "\<lparr>px = 0, py = 0, v = 3, yaw = 0, yawdd = 0\<rparr>" 2]
       ctrv_process_model [OF e, of "\<lparr>px = 0, py = 0, v = 3, yaw = 0, yawdd = 1\<rparr>" "pi / 2"]
  show ?thesis by simp
qed

text \<open>With no time elapsed the process model changes nothing.\<close>

lemma ctrv_zero_dt: "0 < eps \<Longrightarrow> ctrv eps 0 s = Some s"
  by (cases "\<bar>yawdd s\<bar> < eps") (simp_all add: ctrv_straight ctrv_turn)

subsection \<open>The first measurement\<close>

text \<open>
  Claim C5. An uninitialized engine with the range sensor enabled that is given the
  range measurement \<open>(rho = 5, theta = 0, rho_dot = 0)\<close> returns no error and becomes
  running with the state \<open>(5, 0, 0, 0, 0)\<close>, the position being the polar coordinates
  turned into Cartesian ones. Nothing but state, covariance, time stamp and the
  initialized flag changes: no prediction and no update take place, whatever the
  variant.
\<close>

theorem first_range_measurement_seeds_position:
  assumes "\<not> initialized e" and "radar_enabled e"
  shows "process_measurement p e (Range 5 0 0 t)
           = Inr (e\<lparr>x_' := [5, 0, 0, 0, 0], initialized := True,
                    P_cov := seed_P p (Range 5 0 0 t), last_timestamp := t\<rparr>)"
  using assms by (simp add: process_measurement_def enabled_def vec_of_def)

text \<open>The theorem at a newly built engine.\<close>

theorem first_range_measurement_seeds_position_witness:
  "\<not> initialized (new_engine True True) \<and> radar_enabled (new_engine True True)
   \<and> process_measurement (sample_params 7) (new_engine True True) (Range 5 0 0 1477010443000000)
       = Inr ((new_engine True True)
               \<lparr>x_' := [5, 0, 0, 0, 0], initialized := True, last_timestamp := 1477010443000000\<rparr>)"
proof -
  have i: "\<not> initialized (new_engine True True)" and r: "radar_enabled (new_engine True True)"
    by (simp_all add: new_engine_def)
  from first_range_measurement_seeds_position [OF i r, of "sample_params 7" 1477010443000000] i r
  show ?thesis by (simp add: sample_params_def new_engine_def)
qed

subsection \<open>The NIS counters\<close>

lemma track_nis_counts:
  "nis_laser_counter_' (track_nis p m nis e)
     = nis_laser_counter_' e + (if sensor_of m = LASER \<and> crit p (dof m) < nis then 1 else 0)"
  "nis_radar_counter_' (track_nis p m nis e)
     = nis_radar_counter_' e + (if sensor_of m = RADAR \<and> crit p (dof m) < nis then 1 else 0)"
  "timestep_' (track_nis p m nis e) = timestep_' e + 1"
  by (simp_all add: track_nis_def split: SensorType.splits)

lemma step_counters:
  assumes "process_measurement p e m = Inr e'"
  shows "nis_laser_counter_' e \<le> nis_laser_counter_' e'"
    and "nis_radar_counter_' e \<le> nis_radar_counter_' e'"
    and "timestep_' e \<le> timestep_' e'"
    and "nis_laser_counter_' e \<le> timestep_' e \<Longrightarrow> nis_laser_counter_' e' \<le> timestep_' e'"
    and "nis_radar_counter_' e \<le> timestep_' e \<Longrightarrow> nis_radar_counter_' e' \<le> timestep_' e'"
  using assms
  by (auto simp: process_measurement_def track_nis_counts Let_def
           split: if_splits option.splits prod.splits)

lemma run_append: "run p e (ms @ ms2) = run p (run p e ms) ms2"
  by (induction ms arbitrary: e) (simp_all split: sum.splits)

lemma run_counters:
  "nis_laser_counter_' e \<le> nis_laser_counter_' (run p e ms)
   \<and> nis_radar_counter_' e \<le> nis_radar_counter_' (run p e ms)
   \<and> timestep_' e \<le> timestep_' (run p e ms)"
proof (induction ms arbitrary: e)
  case Nil
  show ?case by simp
next
  case (Cons m ms)
  show ?case
  proof (cases "process_measurement p e m")
    case (Inl err)
    with Cons.IH [of e] show ?thesis by simp
  next
    case (Inr e')
    from step_counters(1-3) [OF Inr] Cons.IH [of e'] Inr show ?thesis by simp
  qed
qed

lemma run_bounded:
  "nis_laser_counter_' e \<le> timestep_' e \<Longrightarrow> nis_radar_counter_' e \<le> timestep_' e \<Longrightarrow>
     nis_laser_counter_' (run p e ms) \<le> timestep_' (run p e ms)
     \<and> nis_radar_counter_' (run p e ms) \<le> timestep_' (run p e ms)"
proof (induction ms arbitrary: e)
  case Nil
  then show ?case by simp
next
  case (Cons m ms)
  show ?case
  proof (cases "process_measurement p e m")
    case (Inl err)
    with Cons.IH [OF Cons.prems] show ?thesis by simp
  next
    case (Inr e')
    from Cons.IH [OF step_counters(4) [OF Inr Cons.prems(1)] step_counters(5) [OF Inr Cons.prems(2)]] Inr
    show ?thesis by simp
  qed
qed

lemma update_counts:
  assumes "initialized e" and "enabled e m"
    and "Update p m (Predict p (elapsed p (last_timestamp e) (timestamp_of m)) (x_' e, P_cov e))
           = Some (x2, P2, nis)"
  shows "\<exists>e'. process_measurement p e m = Inr e'
     \<and> nis_laser_counter_' e'
         = nis_laser_counter_' e + (if sensor_of m = LASER \<and> crit p 2 < nis then 1 else 0)
     \<and> nis_radar_counter_' e'
         = nis_radar_counter_' e + (if sensor_of m = RADAR \<and> crit p 3 < nis then 1 else 0)
     \<and> timestep_' e' = timestep_' e + 1"
  using assms
  by (cases m) (simp_all add: process_measurement_def track_nis_counts)

text \<open>
  Claim C7. Over every run from a newly built engine, each of the two NIS counters is
  at most the step counter, and the three counters never decrease as the run goes on.
  An update of a running engine counts one step, and counts for its own sensor exactly
  when the NIS exceeds the critical value for that sensor's measurement dimension: two
  degrees of freedom for the position sensor, three for the range sensor.
\<close>

theorem nis_counters_bounded_and_monotone:
  "nis_laser_counter_' (run p (new_engine use_l use_r) ms)
     \<le> timestep_' (run p (new_engine use_l use_r) ms)
   \<and> nis_radar_counter_' (run p (new_engine use_l use_r) ms)
     \<le> timestep_' (run p (new_engine use_l use_r) ms)
   \<and> nis_laser_counter_' (run p (new_engine use_l use_r) ms)
     \<le> nis_laser_counter_' (run p (new_engine use_l use_r) (ms @ ms2))
   \<and> nis_radar_counter_' (run p (new_engine use_l use_r) ms)
     \<le> nis_radar_counter_' (run p (new_engine use_l use_r) (ms @ ms2))
   \<and> timestep_' (run p (new_engine use_l use_r) ms)
     \<le> timestep_' (run p (new_engine use_l use_r) (ms @ ms2))
   \<and> (initialized e \<and> enabled e m
        \<and> Update p m (Predict p (elapsed p (last_timestamp e) (timestamp_of m)) (x_' e, P_cov e))
             = Some (x2, P2, nis) \<longrightarrow>
        (\<exists>e'. process_measurement p e m = Inr e'
           \<and> nis_laser_counter_' e'
               = nis_laser_counter_' e + (if sensor_of m = LASER \<and> crit p 2 < nis then 1 else 0)
           \<and> nis_radar_counter_' e'
               = nis_radar_counter_' e + (if sensor_of m = RADAR \<and> crit p 3 < nis then 1 else 0)
           \<and> timestep_' e' = timestep_' e + 1))"
proof -
  let ?e0 = "new_engine use_l use_r"
  have b: "nis_laser_counter_' (run p ?e0 ms) \<le> timestep_' (run p ?e0 ms)
     \<and> nis_radar_counter_' (run p ?e0 ms) \<le> timestep_' (run p ?e0 ms)"
    by (rule run_bounded) (simp_all add: new_engine_def)
  have m: "nis_laser_counter_' (run p ?e0 ms) \<le> nis_laser_counter_' (run p ?e0 (ms @ ms2))
     \<and> nis_radar_counter_' (run p ?e0 ms) \<le> nis_radar_counter_' (run p ?e0 (ms @ ms2))
     \<and> timestep_' (run p ?e0 ms) \<le> timestep_' (run p ?e0 (ms @ ms2))"
    unfolding run_append by (rule run_counters)
  from b m update_counts [of e m p x2 P2 nis] show ?thesis by blast
qed

text \<open>
  The theorem on a run of three measurements whose updates report the NIS 7: the first
  seeds the state, the position update exceeds 5.991 and is counted, the range update
  stays below 7.815.
\<close>

theorem nis_counters_bounded_and_monotone_witness:
  "nis_laser_counter_' (run (sample_params 7) (new_engine True True)
       [Position 1 1 0, Position 2 2 100000, Range 5 0 0 200000]) = 1
   \<and> nis_radar_counter_' (run (sample_params 7) (new_engine True True)
       [Position 1 1 0, Position 2 2 100000, Range 5 0 0 200000]) = 0
   \<and> timestep_' (run (sample_params 7) (new_engine True True)
       [Position 1 1 0, Position 2 2 100000, Range 5 0 0 200000]) = 2
   \<and> nis_laser_counter_' (run (sample_params 7) (new_engine True True) [Position 1 1 0])
       \<le> nis_laser_counter_' (run (sample_params 7) (new_engine True True)
            ([Position 1 1 0] @ [Position 2 2 100000, Range 5 0 0 200000]))
   \<and> initialized (run (sample_params 7) (new_engine True True) [Position 1 1 0])
   \<and> enabled (run (sample_params 7) (new_engine True True) [Position 1 1 0]) (Position 2 2 100000)
   \<and> (\<exists>e'. process_measurement (sample_params 7)
               (run (sample_params 7) (new_engine True True) [Position 1 1 0])
               (Position 2 2 100000) = Inr e'
           \<and> nis_laser_counter_' e' = 1 \<and> nis_radar_counter_' e' = 0 \<and> timestep_' e' = 1)"
proof -
  let ?p = "sample_params 7"
  let ?e1 = "run ?p (new_engine True True) [Position 1 1 0]"
  have e1: "?e1 = (new_engine True True)
              \<lparr>x_' := [1, 1, 0, 0, 0], initialized := True, last_timestamp := 0\<rparr>"
    by (simp add: engine_defs)
  have vals: "nis_laser_counter_' (run ?p (new_engine True True)
       [Position 1 1 0, Position 2 2 100000, Range 5 0 0 200000]) = 1
   \<and> nis_radar_counter_' (run ?p (new_engine True True)
       [Position 1 1 0, Position 2 2 100000, Range 5 0 0 200000]) = 0
   \<and> timestep_' (run ?p (new_engine True True)
       [Position 1 1 0, Position 2 2 100000, Range 5 0 0 200000]) = 2"
    by (simp add: engine_defs)
  have hyp: "initialized ?e1 \<and> enabled ?e1 (Position 2 2 100000)
     \<and> Update ?p (Position 2 2 100000)
          (Predict ?p (elapsed ?p (last_timestamp ?e1) (timestamp_of (Position 2 2 100000)))
             (x_' ?e1, P_cov ?e1))
        = Some (x_' ?e1, P_cov ?e1, 7)"
    unfolding e1 by (simp add: engine_defs)
  have c0: "nis_laser_counter_' ?e1 = 0" "nis_radar_counter_' ?e1 = 0" "timestep_' ?e1 = 0"
    unfolding e1 by (simp_all add: new_engine_def)
  have cr: "crit ?p 2 < 7" by (simp add: sample_params_def)
  note t = nis_counters_bounded_and_monotone
    [of ?p True True "[Position 1 1 0]" "[Position 2 2 100000, Range 5 0 0 200000]"
        ?e1 "Position 2 2 100000" "x_' ?e1" "P_cov ?e1" 7]
  from t hyp obtain e' where
    "process_measurement ?p ?e1 (Position 2 2 100000) = Inr e'"
    "nis_laser_counter_' e' = nis_laser_counter_' ?e1
        + (if sensor_of (Position 2 2 100000) = LASER \<and> crit ?p 2 < 7 then 1 else 0)"
    "nis_radar_counter_' e' = nis_radar_counter_' ?e1
        + (if sensor_of (Position 2 2 100000) = RADAR \<and> crit ?p 3 < 7 then 1 else 0)"
    "timestep_' e' = timestep_' ?e1 + 1"
    by blast
  then have step: "\<exists>e'. process_measurement ?p ?e1 (Position 2 2 100000) = Inr e'
           \<and> nis_laser_counter_' e' = 1 \<and> nis_radar_counter_' e' = 0 \<and> timestep_' e' = 1"
    using c0 cr by simp
  from t have mono: "nis_laser_counter_' ?e1
       \<le> nis_laser_counter_' (run ?p (new_engine True True)
            ([Position 1 1 0] @ [Position 2 2 100000, Range 5 0 0 200000]))"
    by blast
  from vals mono hyp step show ?thesis by blast
qed


end
